theory Spec2Isabelle
  imports Complex_Main "HOL-Library.Product_Lexorder"
begin

section \<open>The retrieval engine of app/rag.py\<close>

text \<open>
  A shallow embedding of the classes \<^verbatim>\<open>VectorStore\<close> and \<^verbatim>\<open>RAGSystem\<close> of
  \<^verbatim>\<open>src/app/rag.py\<close> and of the two settings of \<^verbatim>\<open>src/config.py\<close> they read.

  Every method takes the state it works on and returns the state it leaves, next to
  its result; an exception is the value \<open>Inl e\<close>, and the state returned with it is
  the one the method had reached when it raised.

  Strings are lists of characters, so \<open>length\<close> is Python's \<^verbatim>\<open>len\<close>. Scores are real
  numbers: the finite values of the library's 32-bit floats, with their order.
\<close>

subsection \<open>Python values and errors\<close>

datatype py_error = IndexError | AssertionError | TypeError | OSError | ValueError

text \<open>
  A metadata value: a string, \<^verbatim>\<open>None\<close>, or any other scalar (a number read from
  products.json), kept with the text \<^verbatim>\<open>str()\<close> gives it.
\<close>

datatype pyval = PStr string | PNone | POther string

fun py_str :: "pyval \<Rightarrow> string" where
  "py_str (PStr s) = s"
| "py_str PNone = ''None''"
| "py_str (POther s) = s"

text \<open>\<^verbatim>\<open>d.get(key, default)\<close> and \<^verbatim>\<open>d.get(key)\<close>, whose default is \<^verbatim>\<open>None\<close>.\<close>

definition dict_get :: "(string \<rightharpoonup> pyval) \<Rightarrow> string \<Rightarrow> pyval \<Rightarrow> pyval" where
  "dict_get m key dflt = (case m key of None \<Rightarrow> dflt | Some v \<Rightarrow> v)"

text \<open>
  \<^verbatim>\<open>xs[i]\<close> on a list: an index from \<open>- len\<close> up to \<open>len - 1\<close> is read (a negative one
  from the end), any other raises IndexError.
\<close>

definition py_index :: "'a list \<Rightarrow> int \<Rightarrow> py_error + 'a" where
  "py_index xs i =
     (if 0 \<le> i \<and> i < int (length xs) then Inr (xs ! nat i)
      else if i < 0 \<and> - int (length xs) \<le> i then Inr (xs ! nat (int (length xs) + i))
      else Inl IndexError)"

text \<open>\<^verbatim>\<open>sep.join(parts)\<close>.\<close>

fun str_join :: "string \<Rightarrow> string list \<Rightarrow> string" where
  "str_join sep [] = []"
| "str_join sep [p] = p"
| "str_join sep (p # q # ps) = p @ sep @ str_join sep (q # ps)"

subsection \<open>config.py\<close>

record model_config =
  top_k_results :: int
  similarity_threshold :: real

text \<open>The global \<^verbatim>\<open>config = ModelConfig()\<close>; no file of the repository changes these two.\<close>

definition config :: model_config where
  "config = \<lparr>top_k_results = 3, similarity_threshold = 7 / 10\<rparr>"

subsection \<open>Documents and search results\<close>

record document =
  page_content :: string
  metadata :: "string \<rightharpoonup> pyval"

record search_result =
  document :: document
  score :: real
  rank :: nat

text \<open>The dictionaries \<^verbatim>\<open>search_products\<close> returns; \<open>pscore\<close> is their key "score".\<close>

record product_result =
  product_id :: pyval
  content :: string
  pscore :: real

subsection \<open>The libraries the engine calls\<close>

type_synonym vec = "real list"

text \<open>
  The numeric work is done outside the repository: the sentence encoder, the
  normalisation and the inner product of the vector library, and (for \<open>load_chunks\<close>)
  the files of the knowledge base with the text splitter. They are parameters of the
  model, so every theorem holds whatever they compute (all rows are taken to have
  the encoder's one dimension, so the library's dimension checks are left out):
  \<^item> \<open>encode_one s\<close>: the row \<^verbatim>\<open>embeddings_model.encode\<close> gives the text \<open>s\<close>;
  \<^item> \<open>normalize_L2 v\<close>: what \<^verbatim>\<open>faiss.normalize_L2\<close> makes of the row \<open>v\<close>;
  \<^item> \<open>inner_product q v\<close>: the score \<^verbatim>\<open>IndexFlatIP\<close> gives the stored row \<open>v\<close> for the query \<open>q\<close>;
  \<^item> \<open>load_chunks p\<close>: the chunks \<^verbatim>\<open>split_documents\<close> returns for the documents that
    \<^verbatim>\<open>load_markdown_files\<close> and \<^verbatim>\<open>load_json_files\<close> read under the path \<open>p\<close>.
\<close>

record externals =
  encode_one :: "string \<Rightarrow> vec"
  normalize_L2 :: "vec \<Rightarrow> vec"
  inner_product :: "vec \<Rightarrow> vec \<Rightarrow> real"
  load_chunks :: "string \<Rightarrow> document list"

text \<open>
  A numpy array, as far as the engine looks at it: its shape and its rows.
  \<^verbatim>\<open>encode\<close> builds its result with \<^verbatim>\<open>np.asarray\<close> from the list of rows; of an empty
  list that is the one-dimensional array of shape \<open>(0,)\<close>, otherwise the matrix of
  shape \<open>(n, d)\<close>.
\<close>

datatype ndarray = NDArray (shape: "nat list") (rows: "vec list")

definition np_asarray :: "vec list \<Rightarrow> ndarray" where
  "np_asarray rs = NDArray (if rs = [] then [0] else [length rs, length (hd rs)]) rs"

definition encode :: "externals \<Rightarrow> string list \<Rightarrow> ndarray" where
  "encode ext texts = np_asarray (map (encode_one ext) texts)"

text \<open>\<^verbatim>\<open>a.shape[i]\<close>: indexing the shape tuple.\<close>

definition shape_at :: "ndarray \<Rightarrow> int \<Rightarrow> py_error + nat" where
  "shape_at a i = py_index (shape a) i"

definition normalize_rows :: "externals \<Rightarrow> ndarray \<Rightarrow> ndarray" where
  "normalize_rows ext a = NDArray (shape a) (map (normalize_L2 ext) (rows a))"

text \<open>
  \<^verbatim>\<open>faiss.IndexFlatIP\<close>: the dimension it was made for and the rows added, in the order
  they were added; the position of a row is its index.
\<close>

record faiss_index =
  dimension :: nat
  vectors :: "vec list"

definition IndexFlatIP :: "nat \<Rightarrow> faiss_index" where
  "IndexFlatIP d = \<lparr>dimension = d, vectors = []\<rparr>"

definition index_add :: "faiss_index \<Rightarrow> ndarray \<Rightarrow> faiss_index" where
  "index_add ix a = ix\<lparr>vectors := vectors ix @ rows a\<rparr>"

text \<open>The lowest finite 32-bit float: the score of a slot the search could not fill.\<close>

definition neg_flt_max :: real where
  "neg_flt_max = - 340282346638528859811704183484516925440"

text \<open>
  Modelled from the spec: \<^verbatim>\<open>IndexFlatIP.search\<close>, the exact inner-product search of the
  vector library, which is not in the repository. The spec's words: "returns the
  top-k chunks by inner product, each paired with its similarity score, ordered by
  descending score (ties broken by ascending original index position)". \<open>ranked\<close> is
  every stored row with its score, in that order; \<open>index_search\<close> is the first \<open>k\<close> of
  them. The library always returns \<open>k\<close> slots, and it refuses \<open>k \<le> 0\<close>: a slot past
  the end of the index has the label \<open>-1\<close> and the lowest score.
\<close>

definition ranked :: "externals \<Rightarrow> faiss_index \<Rightarrow> vec \<Rightarrow> (real \<times> int) list" where
  "ranked ext ix q =
     sort_key (\<lambda>(s, i). (- s, i))
       (zip (map (inner_product ext q) (vectors ix)) (map int [0..<length (vectors ix)]))"

definition index_search ::
    "externals \<Rightarrow> faiss_index \<Rightarrow> vec \<Rightarrow> int \<Rightarrow> py_error + (real \<times> int) list" where
  "index_search ext ix q k =
     (if k \<le> 0 then Inl AssertionError
      else Inr (take (nat k) (ranked ext ix q)
                @ replicate (nat k - length (vectors ix)) (neg_flt_max, - 1)))"

subsection \<open>VectorStore\<close>

record vector_store =
  index :: "faiss_index option"
  documents :: "document list"
  embeddings :: "ndarray option"

text \<open>\<^verbatim>\<open>VectorStore.__init__\<close>.\<close>

definition new_vector_store :: vector_store where
  "new_vector_store = \<lparr>index = None, documents = [], embeddings = None\<rparr>"

text \<open>
  \<^verbatim>\<open>build_index\<close>: the documents and the embeddings are assigned before the dimension
  is read off the embeddings' shape, the index after it.
\<close>

definition build_index ::
    "externals \<Rightarrow> vector_store \<Rightarrow> document list \<Rightarrow> (py_error + unit) \<times> vector_store" where
  "build_index ext vs docs =
     (let vs1 = vs\<lparr>documents := docs\<rparr>;
          texts = map page_content docs;
          vs2 = vs1\<lparr>embeddings := Some (encode ext texts)\<rparr>
      in case shape_at (encode ext texts) 1 of
           Inl e \<Rightarrow> (Inl e, vs2)
         | Inr d \<Rightarrow>
             (let normalized = normalize_rows ext (encode ext texts);
                  vs3 = vs2\<lparr>index := Some (IndexFlatIP d), embeddings := Some normalized\<rparr>
              in (Inr (), vs3\<lparr>index := Some (index_add (IndexFlatIP d) normalized)\<rparr>)))"

text \<open>
  The loop of \<^verbatim>\<open>similarity_search\<close> over \<^verbatim>\<open>enumerate(zip(scores[0], indices[0]))\<close>:
  \<open>i\<close> is the position, \<open>results\<close> the list built so far.
\<close>

fun collect_results ::
    "model_config \<Rightarrow> document list \<Rightarrow> nat \<Rightarrow> (real \<times> int) list \<Rightarrow> search_result list
      \<Rightarrow> py_error + search_result list" where
  "collect_results cfg docs i [] results = Inr results"
| "collect_results cfg docs i ((s, idx) # hits) results =
     (if similarity_threshold cfg \<le> s then
        (case py_index docs idx of
           Inl e \<Rightarrow> Inl e
         | Inr doc \<Rightarrow>
             collect_results cfg docs (i + 1) hits
               (results @ [\<lparr>document = doc, score = s, rank = i + 1\<rparr>]))
      else collect_results cfg docs (i + 1) hits results)"

text \<open>\<^verbatim>\<open>k or config.top_k_results\<close>: the default also stands in for \<open>k = 0\<close>.\<close>

definition k_or_default :: "model_config \<Rightarrow> int option \<Rightarrow> int" where
  "k_or_default cfg k =
     (case k of None \<Rightarrow> top_k_results cfg
      | Some n \<Rightarrow> if n = 0 then top_k_results cfg else n)"

definition similarity_search ::
    "model_config \<Rightarrow> externals \<Rightarrow> vector_store \<Rightarrow> string \<Rightarrow> int option
      \<Rightarrow> py_error + search_result list" where
  "similarity_search cfg ext vs query k =
     (case index vs of
        None \<Rightarrow> Inr []
      | Some ix \<Rightarrow>
          (let query_embedding = normalize_L2 ext (encode_one ext query)
           in case index_search ext ix query_embedding (k_or_default cfg k) of
                Inl e \<Rightarrow> Inl e
              | Inr hits \<Rightarrow> collect_results cfg (documents vs) 0 hits []))"

subsection \<open>The files of a persisted index\<close>

text \<open>
  What a file decodes to: an index written by \<^verbatim>\<open>faiss.write_index\<close>, a document list
  written by \<^verbatim>\<open>pickle.dump\<close>, or what \<^verbatim>\<open>np.save\<close> wrote (an array, or the object
  \<^verbatim>\<open>None\<close>, which \<^verbatim>\<open>np.load\<close> refuses to read back). A reader given a missing file or
  a file of another kind raises. The writers store the value they are given.
\<close>

datatype artifact = IndexFile faiss_index | PickleFile "document list" | NpyFile "ndarray option"

type_synonym filesystem = "string \<rightharpoonup> artifact"

definition read_index :: "filesystem \<Rightarrow> string \<Rightarrow> py_error + faiss_index" where
  "read_index fs name = (case fs name of Some (IndexFile ix) \<Rightarrow> Inr ix | _ \<Rightarrow> Inl OSError)"

definition pickle_load :: "filesystem \<Rightarrow> string \<Rightarrow> py_error + document list" where
  "pickle_load fs name = (case fs name of Some (PickleFile ds) \<Rightarrow> Inr ds | _ \<Rightarrow> Inl OSError)"

definition np_load :: "filesystem \<Rightarrow> string \<Rightarrow> py_error + ndarray" where
  "np_load fs name =
     (case fs name of
        Some (NpyFile (Some a)) \<Rightarrow> Inr a
      | Some (NpyFile None) \<Rightarrow> Inl ValueError
      | _ \<Rightarrow> Inl OSError)"

text \<open>\<^verbatim>\<open>np.save\<close> appends ".npy" to a file name that does not end with it.\<close>

definition ends_with :: "string \<Rightarrow> string \<Rightarrow> bool" where
  "ends_with suf s = (length suf \<le> length s \<and> drop (length s - length suf) s = suf)"

definition npy_name :: "string \<Rightarrow> string" where
  "npy_name name = (if ends_with ''.npy'' name then name else name @ ''.npy'')"

text \<open>
  \<^verbatim>\<open>os.path.dirname(path)\<close> is empty exactly when the path has no "/", and
  \<^verbatim>\<open>os.makedirs\<close> raises on the empty name.
\<close>

definition dirname_empty :: "string \<Rightarrow> bool" where
  "dirname_empty path = (CHR ''/'' \<notin> set path)"

definition save_index ::
    "filesystem \<Rightarrow> vector_store \<Rightarrow> string \<Rightarrow> (py_error + unit) \<times> filesystem" where
  "save_index fs vs path =
     (if dirname_empty path then (Inl OSError, fs)
      else case index vs of
        None \<Rightarrow> (Inl TypeError, fs)
      | Some ix \<Rightarrow>
          (let fs1 = fs(path @ ''.index'' \<mapsto> IndexFile ix);
               fs2 = fs1(path @ ''.docs'' \<mapsto> PickleFile (documents vs));
               fs3 = fs2(npy_name (path @ ''.embeddings'') \<mapsto> NpyFile (embeddings vs))
           in (Inr (), fs3)))"

text \<open>
  \<^verbatim>\<open>load_index\<close>: each attribute is assigned as soon as its file is read; any
  exception ends the method with \<^verbatim>\<open>False\<close>.
\<close>

definition load_index :: "filesystem \<Rightarrow> vector_store \<Rightarrow> string \<Rightarrow> bool \<times> vector_store" where
  "load_index fs vs path =
     (case read_index fs (path @ ''.index'') of
        Inl e \<Rightarrow> (False, vs)
      | Inr ix \<Rightarrow>
          (case pickle_load fs (path @ ''.docs'') of
             Inl e \<Rightarrow> (False, vs\<lparr>index := Some ix\<rparr>)
           | Inr ds \<Rightarrow>
               (case np_load fs (path @ ''.embeddings.npy'') of
                  Inl e \<Rightarrow> (False, vs\<lparr>index := Some ix, documents := ds\<rparr>)
                | Inr a \<Rightarrow>
                    (True, vs\<lparr>index := Some ix, documents := ds, embeddings := Some a\<rparr>))))"

subsection \<open>RAGSystem\<close>

record rag_system =
  kb_path :: string
  vector_store :: vector_store
  is_initialized :: bool

text \<open>\<^verbatim>\<open>RAGSystem.__init__\<close>.\<close>

definition new_rag_system :: "string \<Rightarrow> rag_system" where
  "new_rag_system knowledge_base_path =
     \<lparr>kb_path = knowledge_base_path, vector_store = new_vector_store, is_initialized = False\<rparr>"

definition index_path :: string where
  "index_path = ''data/vector_index''"

text \<open>The second half of \<^verbatim>\<open>initialize\<close>: load the documents, chunk, build, save.\<close>

definition rebuild ::
    "externals \<Rightarrow> filesystem \<Rightarrow> rag_system \<Rightarrow> (py_error + unit) \<times> filesystem \<times> rag_system" where
  "rebuild ext fs rs =
     (let chunked_docs = load_chunks ext (kb_path rs)
      in case build_index ext (vector_store rs) chunked_docs of
           (Inl e, vs1) \<Rightarrow> (Inl e, fs, rs\<lparr>vector_store := vs1\<rparr>)
         | (Inr u, vs1) \<Rightarrow>
             (case save_index fs vs1 index_path of
                (Inl e, fs1) \<Rightarrow> (Inl e, fs1, rs\<lparr>vector_store := vs1\<rparr>)
              | (Inr u, fs1) \<Rightarrow>
                  (Inr (), fs1, rs\<lparr>vector_store := vs1, is_initialized := True\<rparr>)))"

definition initialize ::
    "externals \<Rightarrow> filesystem \<Rightarrow> rag_system \<Rightarrow> bool
      \<Rightarrow> (py_error + unit) \<times> filesystem \<times> rag_system" where
  "initialize ext fs rs force_rebuild =
     (if force_rebuild then rebuild ext fs rs
      else case load_index fs (vector_store rs) index_path of
             (True, vs1) \<Rightarrow> (Inr (), fs, rs\<lparr>vector_store := vs1, is_initialized := True\<rparr>)
           | (False, vs1) \<Rightarrow> rebuild ext fs (rs\<lparr>vector_store := vs1\<rparr>))"

text \<open>\<^verbatim>\<open>if not self.is_initialized: self.initialize()\<close>, the first step of every query.\<close>

definition ensure_initialized ::
    "externals \<Rightarrow> filesystem \<Rightarrow> rag_system \<Rightarrow> (py_error + unit) \<times> filesystem \<times> rag_system" where
  "ensure_initialized ext fs rs =
     (if is_initialized rs then (Inr (), fs, rs) else initialize ext fs rs False)"

definition no_information :: string where
  "no_information = ''No relevant information found in the knowledge base.''"

definition separator :: string where
  "separator = [CHR 0x0A] @ ''---'' @ [CHR 0x0A]"

text \<open>The block of one result: the source line, the content, each ended by a newline.\<close>

definition content_with_source :: "document \<Rightarrow> string" where
  "content_with_source doc =
     (let source_info =
            ''[Source: '' @ py_str (dict_get (metadata doc) ''filename'' (PStr ''unknown'')) @ '']''
      in source_info @ [CHR 0x0A] @ page_content doc @ [CHR 0x0A])"

text \<open>
  The loop of \<^verbatim>\<open>get_relevant_context\<close>: \<open>parts\<close> is the list \<^verbatim>\<open>context_parts\<close> built so far;
  the first block that does not fit ends the loop.
\<close>

fun context_parts :: "int \<Rightarrow> search_result list \<Rightarrow> string list \<Rightarrow> int \<Rightarrow> string list" where
  "context_parts max_context_length [] parts total_length = parts"
| "context_parts max_context_length (r # results) parts total_length =
     (let block = content_with_source (document r)
      in if total_length + int (length block) > max_context_length then parts
         else context_parts max_context_length results (parts @ [block])
                (total_length + int (length block)))"

text \<open>The blocks of a list of results, in their order (used to state the properties).\<close>

definition blocks :: "search_result list \<Rightarrow> string list" where
  "blocks results = map (\<lambda>r. content_with_source (document r)) results"

definition get_relevant_context ::
    "model_config \<Rightarrow> externals \<Rightarrow> filesystem \<Rightarrow> rag_system \<Rightarrow> string \<Rightarrow> int
      \<Rightarrow> (py_error + string) \<times> filesystem \<times> rag_system" where
  "get_relevant_context cfg ext fs rs query max_context_length =
     (case ensure_initialized ext fs rs of
        (Inl e, fs1, rs1) \<Rightarrow> (Inl e, fs1, rs1)
      | (Inr u, fs1, rs1) \<Rightarrow>
          (case similarity_search cfg ext (vector_store rs1) query None of
             Inl e \<Rightarrow> (Inl e, fs1, rs1)
           | Inr results \<Rightarrow>
               (if results = [] then (Inr no_information, fs1, rs1)
                else (Inr (str_join separator (context_parts max_context_length results [] 0)),
                      fs1, rs1))))"

definition is_product :: "search_result \<Rightarrow> bool" where
  "is_product r = (dict_get (metadata (document r)) ''type'' PNone = PStr ''product'')"

definition as_product :: "search_result \<Rightarrow> product_result" where
  "as_product r =
     \<lparr>product_id = dict_get (metadata (document r)) ''product_id'' PNone,
      content = page_content (document r),
      pscore = score r\<rparr>"

definition search_products ::
    "model_config \<Rightarrow> externals \<Rightarrow> filesystem \<Rightarrow> rag_system \<Rightarrow> string
      \<Rightarrow> (py_error + product_result list) \<times> filesystem \<times> rag_system" where
  "search_products cfg ext fs rs query =
     (case ensure_initialized ext fs rs of
        (Inl e, fs1, rs1) \<Rightarrow> (Inl e, fs1, rs1)
      | (Inr u, fs1, rs1) \<Rightarrow>
          (case similarity_search cfg ext (vector_store rs1) query None of
             Inl e \<Rightarrow> (Inl e, fs1, rs1)
           | Inr results \<Rightarrow> (Inr (map as_product (filter is_product results)), fs1, rs1)))"

subsection \<open>A small knowledge base to run the model on\<close>

text \<open>
  The two documents of the spec's scenario, with an encoder that gives them and
  two queries unit vectors (which normalising leaves as they are) and the exact
  inner product.
\<close>

definition dot :: "vec \<Rightarrow> vec \<Rightarrow> real" where
  "dot u v = sum_list (map2 (*) u v)"

definition hoodie_doc :: document where
  "hoodie_doc =
     \<lparr>page_content = ''Red hoodie, $40, sizes S/M/L'',
      metadata = [''source'' \<mapsto> PStr ''products.json'', ''type'' \<mapsto> PStr ''product'',
                  ''product_id'' \<mapsto> PStr ''P1'']\<rparr>"

definition faq_doc :: document where
  "faq_doc =
     \<lparr>page_content = ''Return policy: 30 days'',
      metadata = [''source'' \<mapsto> PStr ''faq.md'', ''type'' \<mapsto> PStr ''markdown'',
                  ''filename'' \<mapsto> PStr ''faq.md'']\<rparr>"

definition toy_encode :: "string \<Rightarrow> vec" where
  "toy_encode s =
     (if s = ''Red hoodie, $40, sizes S/M/L'' then [3 / 5, 4 / 5]
      else if s = ''Return policy: 30 days'' then [0, 1]
      else if s = ''red hoodie'' then [3 / 5, 4 / 5]
      else [1, 0])"

definition toy_ext :: externals where
  "toy_ext =
     \<lparr>encode_one = toy_encode, normalize_L2 = (\<lambda>v. v), inner_product = dot,
      load_chunks = (\<lambda>p. [hoodie_doc, faq_doc])\<rparr>"

text \<open>The store \<^verbatim>\<open>build_index\<close> leaves for the two documents, and an engine holding it.\<close>

definition toy_store :: vector_store where
  "toy_store =
     \<lparr>index = Some \<lparr>dimension = 2, vectors = [[3 / 5, 4 / 5], [0, 1]]\<rparr>,
      documents = [hoodie_doc, faq_doc],
      embeddings = Some (NDArray [2, 2] [[3 / 5, 4 / 5], [0, 1]])\<rparr>"

definition toy_rag :: rag_system where
  "toy_rag = \<lparr>kb_path = ''app/knowledge_base'', vector_store = toy_store, is_initialized = True\<rparr>"

text \<open>
  Two states of the disk: only the index file is there; and the three files
  \<^verbatim>\<open>save_index\<close> writes for the store above.
\<close>

definition index_only_fs :: filesystem where
  "index_only_fs =
     [''data/vector_index.index'' \<mapsto> IndexFile \<lparr>dimension = 2, vectors = [[3 / 5, 4 / 5], [0, 1]]\<rparr>]"

definition toy_fs :: filesystem where
  "toy_fs =
     [''data/vector_index.index'' \<mapsto> IndexFile \<lparr>dimension = 2, vectors = [[3 / 5, 4 / 5], [0, 1]]\<rparr>,
      ''data/vector_index.docs'' \<mapsto> PickleFile [hoodie_doc, faq_doc],
      ''data/vector_index.embeddings.npy'' \<mapsto> NpyFile (Some (NDArray [2, 2] [[3 / 5, 4 / 5], [0, 1]]))]"

section \<open>Properties\<close>

subsection \<open>The toy knowledge base\<close>

lemma toy_build: "build_index toy_ext new_vector_store [hoodie_doc, faq_doc] = (Inr (), toy_store)"
  by (simp add: build_index_def toy_ext_def new_vector_store_def toy_store_def encode_def
      np_asarray_def shape_at_def py_index_def normalize_rows_def IndexFlatIP_def index_add_def
      hoodie_doc_def faq_doc_def toy_encode_def)

subsection \<open>Searching\<close>

text \<open>
  C8. For every query and every k, \<open>similarity_search\<close> on a store whose index was
  never built (it is still \<^verbatim>\<open>None\<close>) returns the empty list and raises nothing.
\<close>

theorem search_unbuilt_empty:
  "index vs = None \<Longrightarrow> similarity_search cfg ext vs query k = Inr []"
  by (simp add: similarity_search_def)

theorem search_unbuilt_empty_witness:
  "index new_vector_store = None
   \<and> similarity_search config toy_ext new_vector_store ''do you have a hoodie'' (Some 5) = Inr []"
  using search_unbuilt_empty
    [of new_vector_store config toy_ext "''do you have a hoodie''" "Some 5"]
  by (simp add: new_vector_store_def)

lemma collect_results_Inr:
  "collect_results cfg docs i hits acc = Inr rs \<Longrightarrow>
     \<exists>new. rs = acc @ new \<and>
       list_all2 (\<lambda>r (s, idx). score r = s \<and> py_index docs idx = Inr (document r)) new
         (filter (\<lambda>(s, idx). similarity_threshold cfg \<le> s) hits)"
proof (induction hits arbitrary: i acc)
  case Nil
  then show ?case by simp
next
  case (Cons h hits)
  obtain s idx where h: "h = (s, idx)" by (cases h)
  show ?case
  proof (cases "similarity_threshold cfg \<le> s")
    case False
    with Cons h show ?thesis by simp
  next
    case True
    with Cons.prems h obtain doc where d: "py_index docs idx = Inr doc"
      and rest: "collect_results cfg docs (i + 1) hits
                   (acc @ [\<lparr>document = doc, score = s, rank = i + 1\<rparr>]) = Inr rs"
      by (auto split: sum.splits)
    from Cons.IH [OF rest] obtain new where
      "rs = (acc @ [\<lparr>document = doc, score = s, rank = i + 1\<rparr>]) @ new"
      "list_all2 (\<lambda>r (s, idx). score r = s \<and> py_index docs idx = Inr (document r)) new
         (filter (\<lambda>(s, idx). similarity_threshold cfg \<le> s) hits)"
      by blast
    with True h d show ?thesis by simp
  qed
qed

lemma collect_results_total:
  "list_all (\<lambda>(s, idx). s < similarity_threshold cfg \<or> (\<exists>d. py_index docs idx = Inr d)) hits \<Longrightarrow>
     \<exists>rs. collect_results cfg docs i hits acc = Inr rs"
  by (induction hits arbitrary: i acc) (auto split: sum.splits)

lemma length_ranked: "length (ranked ext ix q) = length (vectors ix)"
  by (simp add: ranked_def)

lemma set_ranked:
  "(s, i) \<in> set (ranked ext ix q) \<Longrightarrow>
     0 \<le> i \<and> nat i < length (vectors ix) \<and> s = inner_product ext q (vectors ix ! nat i)"
  by (auto simp: ranked_def set_zip)

lemma distinct_ranked: "distinct (map snd (ranked ext ix q))"
proof -
  let ?xs = "zip (map (inner_product ext q) (vectors ix)) (map int [0..<length (vectors ix)])"
  have "map snd ?xs = map int [0..<length (vectors ix)]" by simp
  moreover have "distinct (map int [0..<length (vectors ix)])"
    by (simp add: distinct_map inj_on_def)
  ultimately have "distinct (map snd ?xs)" by simp
  then have "distinct ?xs \<and> inj_on snd (set ?xs)"
    by (simp only: distinct_map)
  then show ?thesis
    unfolding ranked_def by (simp add: distinct_map)
qed

lemma sorted_ranked:
  "sorted_wrt (\<lambda>a b. fst b < fst a \<or> (fst b = fst a \<and> snd a < snd b)) (ranked ext ix q)"
proof -
  let ?key = "\<lambda>(s :: real, i :: int). (- s, i)"
  let ?xs = "ranked ext ix q"
  have "sorted (map ?key ?xs)"
    unfolding ranked_def by (rule sorted_sort_key)
  moreover have "distinct (map ?key ?xs)"
    using distinct_ranked [of ext ix q] by (auto simp: distinct_map inj_on_def)
  ultimately have "sorted_wrt (<) (map ?key ?xs)"
    by (simp add: strict_sorted_iff)
  then have "sorted_wrt (\<lambda>a b. ?key a < ?key b) ?xs"
    by (simp add: sorted_wrt_map)
  then show ?thesis
    by (rule sorted_wrt_mono_rel [rotated]) (auto simp: less_prod_def)
qed

lemma index_search_length:
  "index_search ext ix q k = Inr hits \<Longrightarrow> length hits = nat k"
  by (auto simp: index_search_def length_ranked split: if_splits)

lemma build_index_built:
  assumes "build_index ext vs0 docs = (Inr (), vs)"
  shows "\<exists>ix. index vs = Some ix \<and> length (vectors ix) = length docs \<and> documents vs = docs
           \<and> embeddings vs \<noteq> None \<and> docs \<noteq> []"
  using assms
  by (auto simp: build_index_def Let_def encode_def np_asarray_def shape_at_def py_index_def
      normalize_rows_def IndexFlatIP_def index_add_def split: sum.splits if_splits)

lemma py_index_in_range: "0 \<le> i \<Longrightarrow> nat i < length xs \<Longrightarrow> py_index xs i = Inr (xs ! nat i)"
  by (auto simp: py_index_def)

lemma related_scores:
  "list_all2 (\<lambda>r (s, idx). score r = s \<and> P r idx) rs hs \<Longrightarrow> map score rs = map fst hs"
  by (induction rs hs rule: list_all2_induct) auto

text \<open>
  C9. On an index that \<open>build_index\<close> built, for every query and every k above 0
  (or the configured one), \<open>similarity_search\<close> returns results that stand, one for one and in order,
  for hits \<open>(score, index)\<close> of the library's search: each result carries the hit's score,
  which is the inner product of the query with the row at the hit's index, and the
  document at that index; the hits are in descending order of score, and
  of two hits with the same score the one with the lower index comes first; so the
  scores of the results never increase. There are at most k results and at most as
  many as the index has rows. (The threshold must lie above the score of an unfilled
  slot, as every similarity does.)
\<close>

theorem search_ranked:
  assumes built: "build_index ext vs0 docs = (Inr (), vs)"
    and k: "0 < k_or_default cfg k"
    and thr: "neg_flt_max < similarity_threshold cfg"
  shows "\<exists>rs hits ix.
           similarity_search cfg ext vs query k = Inr rs
         \<and> index vs = Some ix
         \<and> list_all2 (\<lambda>r (s, i). score r = s \<and> 0 \<le> i \<and> nat i < length (documents vs)
               \<and> document r = documents vs ! nat i
               \<and> s = inner_product ext (normalize_L2 ext (encode_one ext query))
                     (vectors ix ! nat i)) rs hits
         \<and> sorted_wrt (\<lambda>a b. fst b < fst a \<or> (fst b = fst a \<and> snd a < snd b)) hits
         \<and> sorted_wrt (\<lambda>a b. b \<le> a) (map score rs)
         \<and> int (length rs) \<le> k_or_default cfg k
         \<and> length rs \<le> length (vectors ix)"
proof -
  from build_index_built [OF built] obtain ix where
    ix: "index vs = Some ix" and n: "length (vectors ix) = length (documents vs)"
    by auto
  define q where "q = normalize_L2 ext (encode_one ext query)"
  define k' where "k' = k_or_default cfg k"
  define top where "top = take (nat k') (ranked ext ix q)"
  define pass where "pass = (\<lambda>(s :: real, idx :: int). similarity_threshold cfg \<le> s)"
  define hits where "hits = top @ replicate (nat k' - length (vectors ix)) (neg_flt_max, - 1)"
  have search: "index_search ext ix q k' = Inr hits"
    using k by (simp add: index_search_def k'_def hits_def top_def)
  have in_top: "0 \<le> i \<and> nat i < length (documents vs)
                 \<and> s = inner_product ext q (vectors ix ! nat i)"
    if "(s, i) \<in> set top" for s i
    using that set_ranked [of s i ext ix q] n by (auto simp: top_def dest: in_set_takeD)
  have pass_hits: "filter pass hits = filter pass top"
    using thr by (auto simp: hits_def pass_def)
  have "list_all (\<lambda>(s, idx). s < similarity_threshold cfg
            \<or> (\<exists>d. py_index (documents vs) idx = Inr d)) hits"
    using thr in_top by (auto simp: hits_def list_all_iff py_index_in_range)
  from collect_results_total [OF this] obtain rs where
    rs: "collect_results cfg (documents vs) 0 hits [] = Inr rs" by blast
  have sim: "similarity_search cfg ext vs query k = Inr rs"
    using ix search rs by (simp add: similarity_search_def q_def k'_def)
  from collect_results_Inr [OF rs] have rel:
    "list_all2 (\<lambda>r (s, idx). score r = s \<and> py_index (documents vs) idx = Inr (document r)) rs
       (filter pass top)"
    by (simp add: pass_def pass_hits [unfolded pass_def])
  have rel': "list_all2 (\<lambda>r (s, i). score r = s \<and> 0 \<le> i \<and> nat i < length (documents vs)
                 \<and> document r = documents vs ! nat i
                 \<and> s = inner_product ext q (vectors ix ! nat i)) rs (filter pass top)"
    using rel
  proof (rule list.rel_mono_strong)
    fix r :: search_result and h :: "real \<times> int"
    assume mem: "h \<in> set (filter pass top)"
      and old: "case h of (s, idx) \<Rightarrow>
                  score r = s \<and> py_index (documents vs) idx = Inr (document r)"
    obtain s i where h: "h = (s, i)" by (cases h)
    from mem h have "(s, i) \<in> set top" by simp
    then have range: "0 \<le> i" "nat i < length (documents vs)"
      and row: "s = inner_product ext q (vectors ix ! nat i)"
      using in_top by blast+
    from range have "py_index (documents vs) i = Inr (documents vs ! nat i)"
      by (rule py_index_in_range)
    with old h range row
    show "case h of (s, i) \<Rightarrow> score r = s \<and> 0 \<le> i \<and> nat i < length (documents vs)
                 \<and> document r = documents vs ! nat i
                 \<and> s = inner_product ext q (vectors ix ! nat i)"
      by simp
  qed
  have sorted_top:
    "sorted_wrt (\<lambda>a b. fst b < fst a \<or> (fst b = fst a \<and> snd a < snd b)) (filter pass top)"
    unfolding top_def by (intro sorted_wrt_filter sorted_wrt_take sorted_ranked)
  have scores: "map score rs = map fst (filter pass top)"
    using rel by (rule related_scores)
  have "sorted_wrt (\<lambda>a b. fst b \<le> fst a) (filter pass top)"
    using sorted_top by (rule sorted_wrt_mono_rel [rotated]) auto
  then have sorted_scores: "sorted_wrt (\<lambda>a b. b \<le> a) (map score rs)"
    by (simp add: scores sorted_wrt_map)
  have len: "length rs = length (filter pass top)"
    using rel by (rule list_all2_lengthD)
  have "length (filter pass top) \<le> length top" by simp
  also have "length top = min (nat k') (length (vectors ix))"
    by (simp add: top_def length_ranked min.commute)
  finally have "length rs \<le> min (nat k') (length (vectors ix))"
    by (simp add: len)
  then have "int (length rs) \<le> k_or_default cfg k" and "length rs \<le> length (vectors ix)"
    using k by (auto simp: k'_def)
  with sim ix rel' sorted_top sorted_scores show ?thesis
    unfolding q_def by blast
qed

theorem search_ranked_witness:
  "build_index toy_ext new_vector_store [hoodie_doc, faq_doc] = (Inr (), toy_store)
   \<and> 0 < k_or_default config None
   \<and> neg_flt_max < similarity_threshold config
   \<and> (\<exists>rs hits ix.
           similarity_search config toy_ext toy_store ''red hoodie'' None = Inr rs
         \<and> index toy_store = Some ix
         \<and> list_all2 (\<lambda>r (s, i). score r = s \<and> 0 \<le> i \<and> nat i < length (documents toy_store)
               \<and> document r = documents toy_store ! nat i
               \<and> s = inner_product toy_ext (normalize_L2 toy_ext (encode_one toy_ext ''red hoodie''))
                     (vectors ix ! nat i)) rs hits
         \<and> sorted_wrt (\<lambda>a b. fst b < fst a \<or> (fst b = fst a \<and> snd a < snd b)) hits
         \<and> sorted_wrt (\<lambda>a b. b \<le> a) (map score rs)
         \<and> int (length rs) \<le> k_or_default config None
         \<and> length rs \<le> length (vectors ix))"
  using search_ranked [OF toy_build, of config None "''red hoodie''"] toy_build
  by (simp add: k_or_default_def config_def neg_flt_max_def)

subsection \<open>Assembling the context\<close>

lemma ensure_initialized_flag:
  "ensure_initialized ext fs rs = (out, fs1, rs1) \<Longrightarrow> is_initialized rs1 = (out = Inr ())"
  by (auto simp: ensure_initialized_def initialize_def rebuild_def Let_def
      split: if_splits prod.splits sum.splits bool.splits)

lemma get_relevant_context_cases:
  assumes "get_relevant_context cfg ext fs rs query m = (out, fs1, rs1)"
    and "is_initialized rs1"
  shows "out = (case similarity_search cfg ext (vector_store rs1) query None of
                  Inl e \<Rightarrow> Inl e
                | Inr results \<Rightarrow>
                    Inr (if results = [] then no_information
                         else str_join separator (context_parts m results [] 0)))"
  using assms
  by (auto simp: get_relevant_context_def ensure_initialized_flag
      split: prod.splits sum.splits if_splits dest: ensure_initialized_flag)

lemma get_relevant_context_Inr:
  assumes "get_relevant_context cfg ext fs rs query m = (Inr s, fs1, rs1)"
  shows "is_initialized rs1"
  using assms
  by (auto simp: get_relevant_context_def
      split: prod.splits sum.splits if_splits dest: ensure_initialized_flag)

lemma blocks_simps [simp]:
  "blocks [] = []" "blocks (r # rs) = content_with_source (document r) # blocks rs"
  by (simp_all add: blocks_def)

lemma context_parts_prefix:
  "\<exists>n\<le>length results.
     context_parts m results parts tot = parts @ blocks (take n results)
     \<and> (n = 0 \<or> tot + int (length (concat (blocks (take n results)))) \<le> m)
     \<and> (n = length results
        \<or> m < tot + int (length (concat (blocks (take n results))))
                + int (length (content_with_source (document (results ! n)))))"
proof (induction results arbitrary: parts tot)
  case Nil
  then show ?case by simp
next
  case (Cons r results)
  let ?b = "content_with_source (document r)"
  show ?case
  proof (cases "tot + int (length ?b) > m")
    case True
    then have "context_parts m (r # results) parts tot = parts" by simp
    with True show ?thesis by (intro exI [of _ 0]) simp
  next
    case False
    from Cons.IH [of "parts @ [?b]" "tot + int (length ?b)"]
    obtain n where n: "n \<le> length results"
      and eq: "context_parts m results (parts @ [?b]) (tot + int (length ?b))
         = (parts @ [?b]) @ blocks (take n results)"
      and fit: "n = 0 \<or> tot + int (length ?b) + int (length (concat (blocks (take n results)))) \<le> m"
      and stop: "n = length results
        \<or> m < tot + int (length ?b) + int (length (concat (blocks (take n results))))
                + int (length (content_with_source (document (results ! n))))"
      by blast
    have b: "blocks (take (Suc n) (r # results)) = ?b # blocks (take n results)"
      by simp
    have "context_parts m (r # results) parts tot = parts @ blocks (take (Suc n) (r # results))"
      using False eq by (simp add: Let_def)
    moreover have "tot + int (length (concat (blocks (take (Suc n) (r # results))))) \<le> m"
      using False fit by auto
    moreover have "Suc n = length (r # results)
        \<or> m < tot + int (length (concat (blocks (take (Suc n) (r # results)))))
                + int (length (content_with_source (document ((r # results) ! Suc n))))"
      using stop by auto
    ultimately show ?thesis
      using n by (intro exI [of _ "Suc n"]) simp
  qed
qed

lemma length_str_join:
  "length (str_join sep ps) = length (concat ps) + length sep * (length ps - 1)"
  by (induction sep ps rule: str_join.induct) auto

lemma str_join_hd:
  "ps \<noteq> [] \<Longrightarrow> \<exists>rest. str_join sep ps = hd ps @ rest"
  by (induction sep ps rule: str_join.induct) auto

lemma length_content_with_source: "12 \<le> length (content_with_source doc)"
  by (simp add: content_with_source_def Let_def)

subsection \<open>What a search returns\<close>

lemma similarity_search_Inr:
  assumes "similarity_search cfg ext vs query k = Inr results"
  shows "case index vs of
           None \<Rightarrow> results = []
         | Some ix \<Rightarrow>
             (\<exists>hits. index_search ext ix (normalize_L2 ext (encode_one ext query))
                        (k_or_default cfg k) = Inr hits
                \<and> list_all2 (\<lambda>r (s, idx). score r = s
                                \<and> py_index (documents vs) idx = Inr (document r)) results
                     (filter (\<lambda>(s, idx). similarity_threshold cfg \<le> s) hits))"
  using assms
  by (auto simp: similarity_search_def Let_def split: option.splits sum.splits
      dest!: collect_results_Inr)

lemma similarity_search_above_threshold:
  assumes "similarity_search cfg ext vs query k = Inr results"
  shows "list_all (\<lambda>r. similarity_threshold cfg \<le> score r) results"
proof (cases "index vs")
  case None
  with assms show ?thesis by (simp add: similarity_search_def)
next
  case (Some ix)
  with similarity_search_Inr [OF assms] obtain hits where
    rel: "list_all2 (\<lambda>r (s, idx). score r = s
             \<and> py_index (documents vs) idx = Inr (document r)) results
           (filter (\<lambda>(s, idx). similarity_threshold cfg \<le> s) hits)"
    by auto
  from related_scores [OF rel]
  have "set (map score results) \<subseteq> fst ` {h \<in> set hits. similarity_threshold cfg \<le> fst h}"
    by auto
  then show ?thesis by (auto simp: list_all_iff)
qed

lemma similarity_search_length:
  assumes "similarity_search cfg ext vs query k = Inr results"
  shows "int (length results) \<le> max 0 (k_or_default cfg k)"
proof (cases "index vs")
  case None
  with assms show ?thesis by (simp add: similarity_search_def)
next
  case (Some ix)
  with similarity_search_Inr [OF assms] obtain hits where
    hits: "index_search ext ix (normalize_L2 ext (encode_one ext query))
             (k_or_default cfg k) = Inr hits"
    and rel: "list_all2 (\<lambda>r (s, idx). score r = s
             \<and> py_index (documents vs) idx = Inr (document r)) results
           (filter (\<lambda>(s, idx). similarity_threshold cfg \<le> s) hits)"
    by auto
  have "length results \<le> length hits"
    using list_all2_lengthD [OF rel] by simp
  with index_search_length [OF hits] show ?thesis by simp
qed

subsection \<open>The toy knowledge base, searched\<close>

lemma toy_hits_red:
  "index_search toy_ext \<lparr>dimension = 2, vectors = [[3 / 5, 4 / 5], [0, 1]]\<rparr> [3 / 5, 4 / 5] 3
     = Inr [(1, 0), (4 / 5, 1), (neg_flt_max, - 1)]"
  by (simp add: index_search_def ranked_def toy_ext_def dot_def less_eq_prod_def
      numeral_3_eq_3)

lemma toy_hits_hoodie:
  "index_search toy_ext \<lparr>dimension = 2, vectors = [[3 / 5, 4 / 5], [0, 1]]\<rparr> [1, 0] 3
     = Inr [(3 / 5, 0), (0, 1), (neg_flt_max, - 1)]"
  by (simp add: index_search_def ranked_def toy_ext_def dot_def less_eq_prod_def
      numeral_3_eq_3)

lemma toy_search_red:
  "similarity_search config toy_ext toy_store ''red hoodie'' None
     = Inr [\<lparr>document = hoodie_doc, score = 1, rank = 1\<rparr>,
            \<lparr>document = faq_doc, score = 4 / 5, rank = 2\<rparr>]"
  by (simp add: similarity_search_def toy_store_def k_or_default_def config_def toy_hits_red
      toy_hits_red [unfolded toy_ext_def] toy_ext_def toy_encode_def py_index_def neg_flt_max_def)

lemma toy_search_hoodie:
  "similarity_search config toy_ext toy_store ''do you have a hoodie'' None = Inr []"
  by (simp add: similarity_search_def toy_store_def k_or_default_def config_def
      toy_hits_hoodie [unfolded toy_ext_def] toy_ext_def toy_encode_def py_index_def neg_flt_max_def)

lemma toy_block_lengths:
  "length (content_with_source hoodie_doc) = 47" "length (content_with_source faq_doc) = 40"
  "length no_information = 52"
  by (simp_all add: content_with_source_def hoodie_doc_def faq_doc_def dict_get_def
      no_information_def)


lemma toy_context_red_10:
  "get_relevant_context config toy_ext Map.empty toy_rag ''red hoodie'' 10
     = (Inr [], Map.empty, toy_rag)"
  by (simp add: get_relevant_context_def ensure_initialized_def toy_rag_def toy_search_red
      toy_block_lengths)

lemma toy_context_red_2000:
  "get_relevant_context config toy_ext Map.empty toy_rag ''red hoodie'' 2000
     = (Inr (str_join separator (blocks [\<lparr>document = hoodie_doc, score = 1, rank = 1\<rparr>,
            \<lparr>document = faq_doc, score = 4 / 5, rank = 2\<rparr>])), Map.empty, toy_rag)"
  by (simp add: get_relevant_context_def ensure_initialized_def toy_rag_def toy_search_red
      toy_block_lengths)

lemma toy_context_hoodie:
  "get_relevant_context config toy_ext Map.empty toy_rag ''do you have a hoodie'' m
     = (Inr no_information, Map.empty, toy_rag)"
  by (simp add: get_relevant_context_def ensure_initialized_def toy_rag_def toy_search_hoodie)

subsection \<open>The context string\<close>

text \<open>
  C10. When the engine is initialised and the search of \<open>get_relevant_context\<close> returns
  the list \<open>results\<close>: the sentinel "No relevant information found in the knowledge
  base." is returned exactly when \<open>results\<close> is empty; and when \<open>results\<close> is not empty
  but the block of its first result alone is longer than \<open>max_context_length\<close>, the
  empty string is returned.
\<close>

theorem oversized_first_block:
  assumes run: "get_relevant_context cfg ext fs rs query m = (out, fs1, rs1)"
    and init: "is_initialized rs1"
    and search: "similarity_search cfg ext (vector_store rs1) query None = Inr results"
  shows "(out = Inr no_information \<longleftrightarrow> results = [])
       \<and> (results \<noteq> [] \<and> m < int (length (content_with_source (document (hd results))))
            \<longrightarrow> out = Inr [])"
proof -
  have out: "out = Inr (if results = [] then no_information
                        else str_join separator (context_parts m results [] 0))"
    using get_relevant_context_cases [OF run init] search by simp
  have first: "out = Inr []"
    if "results \<noteq> []" "m < int (length (content_with_source (document (hd results))))"
  proof -
    from that obtain r rest where "results = r # rest" by (cases results) auto
    with that out show ?thesis by simp
  qed
  have "str_join separator (context_parts m results [] 0) \<noteq> no_information"
    if ne: "results \<noteq> []"
  proof -
    from context_parts_prefix [of results m "[]" 0] obtain n where
      parts: "context_parts m results [] 0 = blocks (take n results)" by auto
    show ?thesis
    proof (cases "blocks (take n results)")
      case Nil
      then show ?thesis by (simp add: parts no_information_def)
    next
      case (Cons b bs)
      then have "b \<in> set (blocks (take n results))" by simp
      then obtain r :: search_result where "b = content_with_source (document r)"
        unfolding blocks_def by auto
      then have "hd b = CHR ''[''"
        by (simp add: content_with_source_def)
      moreover from str_join_hd [of "b # bs" separator]
      obtain rest where "str_join separator (b # bs) = b @ rest" by auto
      moreover have "b \<noteq> []"
        using \<open>b = content_with_source (document r)\<close> length_content_with_source [of "document r"]
        by auto
      ultimately have "hd (str_join separator (blocks (take n results))) = CHR ''[''"
        using Cons by simp
      then show ?thesis
        by (auto simp: parts no_information_def)
    qed
  qed
  with out first show ?thesis by auto
qed

theorem oversized_first_block_witness:
  "get_relevant_context config toy_ext Map.empty toy_rag ''red hoodie'' 10
     = (Inr [], Map.empty, toy_rag)
   \<and> is_initialized toy_rag
   \<and> similarity_search config toy_ext (vector_store toy_rag) ''red hoodie'' None
       = Inr [\<lparr>document = hoodie_doc, score = 1, rank = 1\<rparr>,
              \<lparr>document = faq_doc, score = 4 / 5, rank = 2\<rparr>]
   \<and> 10 < int (length (content_with_source (document
              (hd [\<lparr>document = hoodie_doc, score = 1, rank = 1\<rparr>,
                   \<lparr>document = faq_doc, score = 4 / 5, rank = 2\<rparr>]))))
   \<and> (Inr [] :: py_error + string) \<noteq> Inr no_information"
proof -
  have init: "is_initialized toy_rag" by (simp add: toy_rag_def)
  have search: "similarity_search config toy_ext (vector_store toy_rag) ''red hoodie'' None
       = Inr [\<lparr>document = hoodie_doc, score = 1, rank = 1\<rparr>,
              \<lparr>document = faq_doc, score = 4 / 5, rank = 2\<rparr>]"
    using toy_search_red by (simp add: toy_rag_def)
  show ?thesis
    using oversized_first_block [OF toy_context_red_10 init search] toy_context_red_10 init search
    by (simp add: toy_block_lengths)
qed

text \<open>
  C7. Whatever string \<open>get_relevant_context\<close> returns, it is the sentinel (when the
  search returned nothing) or the join of the blocks of the first \<open>n\<close> results of the
  search; every result of the search has a score at or above the configured
  threshold, and the results are, one for one and in order, the hits of the library's
  search whose raw score is at or above the threshold, each with the document at the
  hit's index. So no chunk with a raw score below the threshold is in the context.
\<close>

theorem context_above_threshold:
  assumes run: "get_relevant_context cfg ext fs rs query m = (Inr s, fs1, rs1)"
  shows "\<exists>results n.
           similarity_search cfg ext (vector_store rs1) query None = Inr results
         \<and> s = (if results = [] then no_information
                else str_join separator (blocks (take n results)))
         \<and> list_all (\<lambda>r. similarity_threshold cfg \<le> score r) results
         \<and> (case index (vector_store rs1) of
               None \<Rightarrow> results = []
             | Some ix \<Rightarrow>
                 (\<exists>hits. index_search ext ix (normalize_L2 ext (encode_one ext query))
                            (top_k_results cfg) = Inr hits
                    \<and> list_all2 (\<lambda>r (sc, idx). score r = sc
                          \<and> py_index (documents (vector_store rs1)) idx = Inr (document r))
                        results (filter (\<lambda>(sc, idx). similarity_threshold cfg \<le> sc) hits)))"
proof -
  have init: "is_initialized rs1"
    using run by (rule get_relevant_context_Inr)
  from get_relevant_context_cases [OF run init] obtain results where
    search: "similarity_search cfg ext (vector_store rs1) query None = Inr results"
    and s: "s = (if results = [] then no_information
                 else str_join separator (context_parts m results [] 0))"
    by (auto split: sum.splits)
  from context_parts_prefix [of results m "[]" 0] obtain n where
    parts: "context_parts m results [] 0 = blocks (take n results)" by auto
  have "list_all (\<lambda>r. similarity_threshold cfg \<le> score r) results"
    using search by (rule similarity_search_above_threshold)
  moreover have "case index (vector_store rs1) of
               None \<Rightarrow> results = []
             | Some ix \<Rightarrow>
                 (\<exists>hits. index_search ext ix (normalize_L2 ext (encode_one ext query))
                            (top_k_results cfg) = Inr hits
                    \<and> list_all2 (\<lambda>r (sc, idx). score r = sc
                          \<and> py_index (documents (vector_store rs1)) idx = Inr (document r))
                        results (filter (\<lambda>(sc, idx). similarity_threshold cfg \<le> sc) hits))"
    using similarity_search_Inr [OF search] by (simp add: k_or_default_def split: option.splits)
  ultimately show ?thesis
    using search s parts by auto
qed

theorem context_above_threshold_witness:
  "get_relevant_context config toy_ext Map.empty toy_rag ''red hoodie'' 2000
     = (Inr (str_join separator (blocks [\<lparr>document = hoodie_doc, score = 1, rank = 1\<rparr>,
            \<lparr>document = faq_doc, score = 4 / 5, rank = 2\<rparr>])), Map.empty, toy_rag)
   \<and> (\<exists>results n.
           similarity_search config toy_ext (vector_store toy_rag) ''red hoodie'' None = Inr results
         \<and> str_join separator (blocks [\<lparr>document = hoodie_doc, score = 1, rank = 1\<rparr>,
              \<lparr>document = faq_doc, score = 4 / 5, rank = 2\<rparr>])
            = (if results = [] then no_information
               else str_join separator (blocks (take n results)))
         \<and> list_all (\<lambda>r. similarity_threshold config \<le> score r) results)"
  using context_above_threshold [OF toy_context_red_2000] toy_context_red_2000
  by blast

text \<open>
  C2, as amended. Let \<open>get_relevant_context\<close> return the string \<open>s\<close>, with the configured
  k at most 3 and \<open>max_context_length\<close> not negative. If the search returned nothing,
  \<open>s\<close> is the sentinel (52 characters, whatever the budget). Otherwise \<open>s\<close> is the join
  of the blocks of the first \<open>n\<close> results, whole and in rank order; these blocks
  together have at most \<open>max_context_length\<close> characters, and the next block, if there
  is one, would have exceeded it; the separators are not counted, so \<open>s\<close> has at most
  \<open>max_context_length + 10\<close> characters, which is at most \<open>max_context_length\<close> plus
  the length of any one block of the results.
\<close>

theorem context_budget:
  assumes run: "get_relevant_context cfg ext fs rs query m = (Inr s, fs1, rs1)"
    and k: "top_k_results cfg \<le> 3"
    and m: "0 \<le> m"
  shows "\<exists>results n.
           similarity_search cfg ext (vector_store rs1) query None = Inr results
         \<and> n \<le> length results
         \<and> (if results = [] then s = no_information
             else s = str_join separator (blocks (take n results))
                \<and> int (length (concat (blocks (take n results)))) \<le> m
                \<and> (n = length results
                    \<or> m < int (length (concat (blocks (take n results))))
                            + int (length (content_with_source (document (results ! n)))))
                \<and> int (length s) \<le> m + 10
                \<and> list_all (\<lambda>b. int (length s) \<le> m + int (length b)) (blocks results))"
proof -
  have init: "is_initialized rs1"
    using run by (rule get_relevant_context_Inr)
  from get_relevant_context_cases [OF run init] obtain results where
    search: "similarity_search cfg ext (vector_store rs1) query None = Inr results"
    and s: "s = (if results = [] then no_information
                 else str_join separator (context_parts m results [] 0))"
    by (auto split: sum.splits)
  from context_parts_prefix [of results m "[]" 0] obtain n where
    n: "n \<le> length results"
    and parts: "context_parts m results [] 0 = blocks (take n results)"
    and fit: "n = 0 \<or> int (length (concat (blocks (take n results)))) \<le> m"
    and stop: "n = length results
        \<or> m < int (length (concat (blocks (take n results))))
                + int (length (content_with_source (document (results ! n))))"
    by auto
  have fit': "int (length (concat (blocks (take n results)))) \<le> m"
    using fit m by auto
  have "int (length results) \<le> max 0 (k_or_default cfg None)"
    using search by (rule similarity_search_length)
  with k have "length results \<le> 3"
    by (simp add: k_or_default_def)
  with n have n3: "n \<le> 3" by simp
  have "length (blocks (take n results)) = n"
    using n by (simp add: blocks_def)
  then have len: "length (str_join separator (blocks (take n results)))
      = length (concat (blocks (take n results))) + 5 * (n - 1)"
    by (simp add: length_str_join separator_def)
  have bound: "int (length (str_join separator (blocks (take n results)))) \<le> m + 10"
    using len fit' n3 by simp
  have "list_all (\<lambda>b. int (length (str_join separator (blocks (take n results))))
                        \<le> m + int (length b)) (blocks results)"
    unfolding list_all_iff blocks_def
  proof
    fix b assume "b \<in> set (map (\<lambda>r. content_with_source (document r)) results)"
    then obtain r :: search_result where "b = content_with_source (document r)" by auto
    then have "12 \<le> length b" by (simp add: length_content_with_source)
    with bound show "int (length (str_join separator
        (map (\<lambda>r. content_with_source (document r)) (take n results)))) \<le> m + int (length b)"
      by (simp add: blocks_def)
  qed
  with search n s parts fit' stop bound show ?thesis
    by (intro exI [of _ results] exI [of _ n]) simp
qed

theorem context_budget_witness:
  "get_relevant_context config toy_ext Map.empty toy_rag ''red hoodie'' 50
     = (Inr (content_with_source hoodie_doc), Map.empty, toy_rag)
   \<and> top_k_results config \<le> 3 \<and> (0 :: int) \<le> 50
   \<and> (\<exists>results n.
           similarity_search config toy_ext (vector_store toy_rag) ''red hoodie'' None = Inr results
         \<and> n \<le> length results
         \<and> (if results = [] then content_with_source hoodie_doc = no_information
             else content_with_source hoodie_doc = str_join separator (blocks (take n results))
                \<and> int (length (concat (blocks (take n results)))) \<le> 50
                \<and> (n = length results
                    \<or> 50 < int (length (concat (blocks (take n results))))
                            + int (length (content_with_source (document (results ! n)))))
                \<and> int (length (content_with_source hoodie_doc)) \<le> 50 + 10
                \<and> list_all (\<lambda>b. int (length (content_with_source hoodie_doc)) \<le> 50 + int (length b))
                     (blocks results)))"
proof -
  have run: "get_relevant_context config toy_ext Map.empty toy_rag ''red hoodie'' 50
     = (Inr (content_with_source hoodie_doc), Map.empty, toy_rag)"
    by (simp add: get_relevant_context_def ensure_initialized_def toy_rag_def toy_search_red
        toy_block_lengths)
  have k: "top_k_results config \<le> 3" by (simp add: config_def)
  show ?thesis
    using context_budget [OF run k] run k by simp
qed

text \<open>
  The claim as first stated fails: with a budget of 0 and a query that no document
  reaches the threshold for, the 52 characters of the sentinel are returned, more
  than the budget plus the block of either document of the knowledge base.
\<close>

theorem context_budget_counterexample:
  "fst (get_relevant_context config toy_ext Map.empty toy_rag ''do you have a hoodie'' 0)
     = Inr no_information
   \<and> similarity_search config toy_ext (vector_store toy_rag) ''do you have a hoodie'' None = Inr []
   \<and> length no_information = 52
   \<and> \<not> int (length no_information) \<le> 0 + int (length (content_with_source hoodie_doc))
   \<and> \<not> int (length no_information) \<le> 0 + int (length (content_with_source faq_doc))"
proof -
  have "similarity_search config toy_ext (vector_store toy_rag) ''do you have a hoodie'' None
          = Inr []"
    using toy_search_hoodie by (simp add: toy_rag_def)
  then show ?thesis
    by (simp add: toy_context_hoodie toy_block_lengths)
qed

subsection \<open>Searching for products\<close>

lemma search_products_cases:
  assumes "search_products cfg ext fs rs query = (out, fs1, rs1)"
    and "is_initialized rs1"
  shows "out = (case similarity_search cfg ext (vector_store rs1) query None of
                  Inl e \<Rightarrow> Inl e
                | Inr results \<Rightarrow> Inr (map as_product (filter is_product results)))"
  using assms
  by (auto simp: search_products_def ensure_initialized_flag
      split: prod.splits sum.splits if_splits dest: ensure_initialized_flag)

text \<open>
  C1, as amended. When the engine is initialised, \<open>search_products\<close> returns, in rank
  order, the product records of exactly those results of \<open>similarity_search\<close> whose
  metadata "type" is "product" (or the error the search raised). \<open>similarity_search\<close>
  has already dropped every hit below the configured threshold, so every product
  returned has a score at or above it.
\<close>

theorem search_products_filtered:
  assumes run: "search_products cfg ext fs rs query = (out, fs1, rs1)"
    and init: "is_initialized rs1"
  shows "case similarity_search cfg ext (vector_store rs1) query None of
           Inl e \<Rightarrow> out = Inl e
         | Inr results \<Rightarrow>
             out = Inr (map as_product (filter is_product results))
           \<and> list_all (\<lambda>r. similarity_threshold cfg \<le> score r) results
           \<and> list_all (\<lambda>p. similarity_threshold cfg \<le> pscore p)
                (map as_product (filter is_product results))"
proof (cases "similarity_search cfg ext (vector_store rs1) query None")
  case (Inl e)
  with search_products_cases [OF run init] show ?thesis by simp
next
  case (Inr results)
  from similarity_search_above_threshold [OF Inr]
  have thr: "list_all (\<lambda>r. similarity_threshold cfg \<le> score r) results" .
  then have "list_all (\<lambda>p. similarity_threshold cfg \<le> pscore p)
                (map as_product (filter is_product results))"
    by (auto simp: list_all_iff as_product_def)
  with search_products_cases [OF run init] Inr thr show ?thesis by simp
qed

lemma toy_products_red:
  "search_products config toy_ext Map.empty toy_rag ''red hoodie''
     = (Inr [\<lparr>product_id = PStr ''P1'', content = ''Red hoodie, $40, sizes S/M/L'',
              pscore = 1\<rparr>], Map.empty, toy_rag)"
  by (simp add: search_products_def ensure_initialized_def toy_rag_def toy_search_red
      is_product_def as_product_def dict_get_def hoodie_doc_def faq_doc_def)

theorem search_products_filtered_witness:
  "search_products config toy_ext Map.empty toy_rag ''red hoodie''
     = (Inr [\<lparr>product_id = PStr ''P1'', content = ''Red hoodie, $40, sizes S/M/L'',
              pscore = 1\<rparr>], Map.empty, toy_rag)
   \<and> is_initialized toy_rag
   \<and> similarity_search config toy_ext (vector_store toy_rag) ''red hoodie'' None
       = Inr [\<lparr>document = hoodie_doc, score = 1, rank = 1\<rparr>,
              \<lparr>document = faq_doc, score = 4 / 5, rank = 2\<rparr>]
   \<and> [\<lparr>product_id = PStr ''P1'', content = ''Red hoodie, $40, sizes S/M/L'', pscore = 1\<rparr>]
       = map as_product (filter is_product [\<lparr>document = hoodie_doc, score = 1, rank = 1\<rparr>,
              \<lparr>document = faq_doc, score = 4 / 5, rank = 2\<rparr>])
   \<and> list_all (\<lambda>p. similarity_threshold config \<le> pscore p)
        [\<lparr>product_id = PStr ''P1'', content = ''Red hoodie, $40, sizes S/M/L'', pscore = 1\<rparr>]"
proof -
  have init: "is_initialized toy_rag" by (simp add: toy_rag_def)
  have search: "similarity_search config toy_ext (vector_store toy_rag) ''red hoodie'' None
       = Inr [\<lparr>document = hoodie_doc, score = 1, rank = 1\<rparr>,
              \<lparr>document = faq_doc, score = 4 / 5, rank = 2\<rparr>]"
    using toy_search_red by (simp add: toy_rag_def)
  show ?thesis
    using search_products_filtered [OF toy_products_red init] toy_products_red init search
    by simp
qed

text \<open>
  The claim as first stated fails: for this query the library's search finds the
  hoodie document (index 0, score 3/5), whose type is "product", but the score is
  below the threshold 7/10 and \<open>search_products\<close> returns nothing.
\<close>

theorem search_products_counterexample:
  "fst (search_products config toy_ext Map.empty toy_rag ''do you have a hoodie'') = Inr []
   \<and> index (vector_store toy_rag) = Some \<lparr>dimension = 2, vectors = [[3 / 5, 4 / 5], [0, 1]]\<rparr>
   \<and> index_search toy_ext \<lparr>dimension = 2, vectors = [[3 / 5, 4 / 5], [0, 1]]\<rparr>
        (normalize_L2 toy_ext (encode_one toy_ext ''do you have a hoodie'')) (top_k_results config)
       = Inr [(3 / 5, 0), (0, 1), (neg_flt_max, - 1)]
   \<and> py_index (documents (vector_store toy_rag)) 0 = Inr hoodie_doc
   \<and> dict_get (metadata hoodie_doc) ''type'' PNone = PStr ''product''
   \<and> (3 / 5 :: real) < similarity_threshold config"
proof -
  have "search_products config toy_ext Map.empty toy_rag ''do you have a hoodie''
          = (Inr [], Map.empty, toy_rag)"
    by (simp add: search_products_def ensure_initialized_def toy_rag_def toy_search_hoodie)
  moreover have "index_search toy_ext \<lparr>dimension = 2, vectors = [[3 / 5, 4 / 5], [0, 1]]\<rparr>
        (normalize_L2 toy_ext (encode_one toy_ext ''do you have a hoodie'')) (top_k_results config)
       = Inr [(3 / 5, 0), (0, 1), (neg_flt_max, - 1)]"
    using toy_hits_hoodie by (simp add: toy_ext_def toy_encode_def config_def)
  ultimately show ?thesis
    by (simp add: toy_rag_def toy_store_def py_index_def dict_get_def hoodie_doc_def config_def)
qed

subsection \<open>Building and persisting the index\<close>

text \<open>
  C4. What \<open>build_index\<close> does with an empty chunk list on a fresh store: the
  documents and the embeddings (the empty array the encoder returns, of shape \<open>(0,)\<close>)
  are assigned, and the lookup of the second dimension of that shape raises IndexError
  before any index is made.
\<close>

theorem build_index_empty_raises:
  "build_index ext new_vector_store []
     = (Inl IndexError, \<lparr>index = None, documents = [], embeddings = Some (NDArray [0] [])\<rparr>)"
  by (simp add: build_index_def new_vector_store_def encode_def np_asarray_def shape_at_def
      py_index_def)

text \<open>
  C3, as amended. If one of the three files cannot be read, \<open>load_index\<close> returns
  \<^verbatim>\<open>False\<close>. The store is as before when it is the index file that fails; otherwise
  the index holds the loaded one, and the documents hold the loaded list when the
  document file was read too (they are as before when it is the one that fails). The
  embeddings are never changed by a failed load.
\<close>

theorem load_index_failure:
  assumes "read_index fs (path @ ''.index'') = Inl e1
           \<or> pickle_load fs (path @ ''.docs'') = Inl e2
           \<or> np_load fs (path @ ''.embeddings.npy'') = Inl e3"
  shows "\<exists>vs1. load_index fs vs path = (False, vs1)
           \<and> embeddings vs1 = embeddings vs
           \<and> (case read_index fs (path @ ''.index'') of
                 Inl e \<Rightarrow> vs1 = vs
               | Inr ix \<Rightarrow>
                   index vs1 = Some ix
                 \<and> (case pickle_load fs (path @ ''.docs'') of
                       Inl e \<Rightarrow> documents vs1 = documents vs
                     | Inr ds \<Rightarrow> documents vs1 = ds))"
  using assms by (auto simp: load_index_def split: sum.splits)

lemma toy_partial_load:
  "load_index index_only_fs new_vector_store ''data/vector_index''
     = (False, \<lparr>index = Some \<lparr>dimension = 2, vectors = [[3 / 5, 4 / 5], [0, 1]]\<rparr>,
                documents = [], embeddings = None\<rparr>)"
  by (simp add: load_index_def index_only_fs_def read_index_def pickle_load_def
      new_vector_store_def)

theorem load_index_failure_witness:
  "pickle_load index_only_fs (''data/vector_index'' @ ''.docs'') = Inl OSError
   \<and> (\<exists>vs1. load_index index_only_fs new_vector_store ''data/vector_index'' = (False, vs1)
           \<and> embeddings vs1 = embeddings new_vector_store
           \<and> index vs1 = Some \<lparr>dimension = 2, vectors = [[3 / 5, 4 / 5], [0, 1]]\<rparr>
           \<and> documents vs1 = documents new_vector_store)"
proof -
  have p: "pickle_load index_only_fs (''data/vector_index'' @ ''.docs'') = Inl OSError"
    by (simp add: pickle_load_def index_only_fs_def)
  have r: "read_index index_only_fs (''data/vector_index'' @ ''.index'')
             = Inr \<lparr>dimension = 2, vectors = [[3 / 5, 4 / 5], [0, 1]]\<rparr>"
    by (simp add: read_index_def index_only_fs_def)
  show ?thesis
    using load_index_failure [of index_only_fs "''data/vector_index''" _ OSError _
        new_vector_store, OF disjI2, OF disjI1, OF p] p r
    by simp
qed

text \<open>
  The claim as first stated fails: with only the index file on disk, the failed load
  leaves the loaded index in a store that had none.
\<close>

theorem load_index_failure_counterexample:
  "load_index index_only_fs new_vector_store ''data/vector_index''
     = (False, \<lparr>index = Some \<lparr>dimension = 2, vectors = [[3 / 5, 4 / 5], [0, 1]]\<rparr>,
                documents = [], embeddings = None\<rparr>)
   \<and> \<lparr>index = Some \<lparr>dimension = 2, vectors = [[3 / 5, 4 / 5], [0, 1]]\<rparr>,
       documents = [], embeddings = None\<rparr> \<noteq> new_vector_store"
  using toy_partial_load by (simp add: new_vector_store_def)

lemma npy_name_embeddings: "npy_name (path @ ''.embeddings'') = path @ ''.embeddings.npy''"
proof -
  have "drop (length path + 7) (path @ ''.embeddings'') = ''ings''"
    by simp
  then have "\<not> ends_with ''.npy'' (path @ ''.embeddings'')"
    by (simp add: ends_with_def)
  then show ?thesis by (simp add: npy_name_def)
qed

lemma save_then_load:
  assumes "index vs = Some ix" and "embeddings vs = Some a" and "\<not> dirname_empty path"
  shows "\<exists>fs1. save_index fs vs path = (Inr (), fs1) \<and> load_index fs1 vs' path = (True, vs)"
  using assms
  by (cases vs)
    (simp add: save_index_def load_index_def Let_def npy_name_embeddings read_index_def
      pickle_load_def np_load_def)

lemma load_again:
  assumes "load_index fs vs path = (True, vs1)"
  shows "load_index fs vs' path = (True, vs1)"
  using assms
  by (cases vs; cases vs') (auto simp: load_index_def split: sum.splits)

lemma index_path_has_dir: "\<not> dirname_empty index_path"
  by (simp add: dirname_empty_def index_path_def)

lemma rebuild_saved:
  assumes "rebuild ext fs rs = (Inr (), fs1, rs1)"
  shows "is_initialized rs1 \<and> load_index fs1 vs' index_path = (True, vector_store rs1)"
proof -
  from assms obtain vs1 where
    built: "build_index ext (vector_store rs) (load_chunks ext (kb_path rs)) = (Inr (), vs1)"
    and saved: "save_index fs vs1 index_path = (Inr (), fs1)"
    and rs1: "rs1 = rs\<lparr>vector_store := vs1, is_initialized := True\<rparr>"
    by (auto simp: rebuild_def Let_def split: prod.splits sum.splits)
  from build_index_built [OF built] obtain ix a where
    "index vs1 = Some ix" "embeddings vs1 = Some a" by auto
  from save_then_load [OF this index_path_has_dir, of fs vs'] saved
  have "load_index fs1 vs' index_path = (True, vs1)" by auto
  with rs1 show ?thesis by simp
qed

text \<open>
  C5. If a call of \<open>initialize\<close> (forced or not) returns without an exception, a
  second call with \<open>force_rebuild = False\<close> on the engine and the disk it left returns
  without an exception too and leaves both exactly as they were: the same index,
  documents, embeddings and \<open>is_initialized\<close>, and the same files.
\<close>

theorem initialize_idempotent:
  assumes first: "initialize ext fs rs force_rebuild = (Inr (), fs1, rs1)"
  shows "initialize ext fs1 rs1 False = (Inr (), fs1, rs1)"
proof -
  have "is_initialized rs1 \<and> load_index fs1 (vector_store rs1) index_path = (True, vector_store rs1)"
  proof (cases "force_rebuild")
    case True
    with first have "rebuild ext fs rs = (Inr (), fs1, rs1)"
      by (simp add: initialize_def)
    then show ?thesis by (rule rebuild_saved)
  next
    case False
    obtain ok vs1 where l: "load_index fs (vector_store rs) index_path = (ok, vs1)"
      by (cases "load_index fs (vector_store rs) index_path")
    show ?thesis
    proof (cases ok)
      case True
      with first False l have "fs1 = fs" "rs1 = rs\<lparr>vector_store := vs1, is_initialized := True\<rparr>"
        by (auto simp: initialize_def)
      with l True load_again [of fs "vector_store rs" index_path vs1 vs1] show ?thesis
        by simp
    next
      case no: False
      with first False l have "rebuild ext fs (rs\<lparr>vector_store := vs1\<rparr>) = (Inr (), fs1, rs1)"
        by (simp add: initialize_def)
      then show ?thesis by (rule rebuild_saved)
    qed
  qed
  then show ?thesis
    by (simp add: initialize_def)
qed

lemma toy_initialize:
  "initialize toy_ext Map.empty (new_rag_system ''app/knowledge_base'') False
     = (Inr (), toy_fs, toy_rag)"
proof -
  have l: "load_index Map.empty new_vector_store index_path = (False, new_vector_store)"
    by (simp add: load_index_def read_index_def)
  have s: "save_index Map.empty toy_store index_path = (Inr (), toy_fs)"
    using npy_name_embeddings [of "''data/vector_index''"]
      index_path_has_dir [unfolded index_path_def]
    by (simp add: save_index_def toy_store_def toy_fs_def index_path_def)
  have c: "load_chunks toy_ext ''app/knowledge_base'' = [hoodie_doc, faq_doc]"
    by (simp add: toy_ext_def)
  show ?thesis
    by (simp add: initialize_def new_rag_system_def l rebuild_def c toy_build s toy_rag_def)
qed

theorem initialize_idempotent_witness:
  "initialize toy_ext Map.empty (new_rag_system ''app/knowledge_base'') False
     = (Inr (), toy_fs, toy_rag)
   \<and> initialize toy_ext toy_fs toy_rag False = (Inr (), toy_fs, toy_rag)"
  using initialize_idempotent [OF toy_initialize] toy_initialize by simp

text \<open>
  C6. For a store that \<open>build_index\<close> built and a path with a directory part,
  \<open>save_index\<close> succeeds, and \<open>load_index\<close> of the same path into a fresh store
  succeeds and gives a store with the same index, the same documents in the same
  order and the same embeddings; so every query, with every k, has the same search
  result on the loaded store as on the saved one.
\<close>

theorem save_load_round_trip:
  assumes built: "build_index ext vs0 docs = (Inr (), vs)"
    and dir: "\<not> dirname_empty path"
  shows "\<exists>fs1 vs1. save_index fs vs path = (Inr (), fs1)
           \<and> load_index fs1 new_vector_store path = (True, vs1)
           \<and> index vs1 = index vs \<and> documents vs1 = documents vs
           \<and> embeddings vs1 = embeddings vs
           \<and> similarity_search cfg ext vs1 query k = similarity_search cfg ext vs query k"
proof -
  from build_index_built [OF built] obtain ix a where
    "index vs = Some ix" "embeddings vs = Some a" by auto
  from save_then_load [OF this dir, of fs new_vector_store] show ?thesis by auto
qed

theorem save_load_round_trip_witness:
  "build_index toy_ext new_vector_store [hoodie_doc, faq_doc] = (Inr (), toy_store)
   \<and> \<not> dirname_empty ''data/vector_index''
   \<and> (\<exists>fs1 vs1. save_index Map.empty toy_store ''data/vector_index'' = (Inr (), fs1)
           \<and> load_index fs1 new_vector_store ''data/vector_index'' = (True, vs1)
           \<and> index vs1 = index toy_store \<and> documents vs1 = documents toy_store
           \<and> embeddings vs1 = embeddings toy_store
           \<and> similarity_search config toy_ext vs1 ''red hoodie'' None
               = similarity_search config toy_ext toy_store ''red hoodie'' None)"
proof -
  have dir: "\<not> dirname_empty ''data/vector_index''"
    by (simp add: dirname_empty_def)
  show ?thesis
    using save_load_round_trip [OF toy_build dir, where fs = Map.empty and cfg = config
          and query = "''red hoodie''" and k = None]
      toy_build dir
    by simp
qed

end
